theory Spec2Isabelle
  imports Main
begin

section \<open>Values, dictionaries and faults\<close>

text \<open>
  Python values that travel through the endpoints of \<^verbatim>\<open>starlette/endpoints.py\<close> and the
  facade of \<^verbatim>\<open>starlette/applications.py\<close>. A \<^verbatim>\<open>dict\<close> with string keys (a connection scope,
  an ASGI message) is a map from strings to values: \<^verbatim>\<open>"k" in d\<close> is \<open>d k \<noteq> None\<close>,
  \<^verbatim>\<open>d["k"]\<close> raises \<^verbatim>\<open>KeyError\<close> where \<open>d k = None\<close>, and \<^verbatim>\<open>d.get("k", v)\<close> falls back to \<open>v\<close>.
\<close>

datatype pyval =
    VNone
  | VBool bool
  | VInt int
  | VStr string
  | VBytes string
  | VDict "(string \<times> pyval) list"
  | VObj string

type_synonym pydict = "string \<rightharpoonup> pyval"

datatype error =
    AssertionError
  | KeyError string
  | TypeError
  | RuntimeError string
  | HTTPException int
  | Fault string

definition dict_get :: "pydict \<Rightarrow> string \<Rightarrow> pyval \<Rightarrow> pyval" where
  "dict_get d k dflt = (case d k of None \<Rightarrow> dflt | Some v \<Rightarrow> v)"

section \<open>The session endpoint (\<^verbatim>\<open>WebSocketEndpoint\<close>)\<close>

text \<open>
  The endpoint class: its \<^verbatim>\<open>encoding\<close> class attribute and the three overridable callbacks.
  A callback works on the application's own state \<open>'u\<close> (which also stands for whatever it
  sends on the session); it returns \<open>None\<close> when it returns normally and \<open>Some e\<close> when it
  raises \<open>e\<close>, with the state it leaves behind in both cases.
\<close>

record 'u ws_class =
  encoding :: pyval
  on_connect :: "pyval \<Rightarrow> 'u \<Rightarrow> error option \<times> 'u"
  on_receive :: "pyval \<Rightarrow> 'u \<Rightarrow> error option \<times> 'u"
  on_disconnect :: "pyval \<Rightarrow> 'u \<Rightarrow> error option \<times> 'u"

text \<open>
  What the endpoint uses and the repository's \<^verbatim>\<open>src/\<close> does not define: the session object's
  \<^verbatim>\<open>accept()\<close> and \<^verbatim>\<open>close(code)\<close> primitives and \<^verbatim>\<open>json.loads(b.decode("utf-8"))\<close>. They are
  parameters.
\<close>

record 'u ws_env =
  ws_accept :: "'u \<Rightarrow> error option \<times> 'u"
  ws_close :: "int \<Rightarrow> 'u \<Rightarrow> error option \<times> 'u"
  json_loads :: "pyval \<Rightarrow> error + pyval"

text \<open>
  The base class as written: \<^verbatim>\<open>encoding = None\<close>, \<^verbatim>\<open>on_connect\<close> accepts the session,
  \<^verbatim>\<open>on_receive\<close> and \<^verbatim>\<open>on_disconnect\<close> have empty bodies. A subclass that only sets
  \<^verbatim>\<open>encoding\<close> is \<open>base_class env enc\<close>.
\<close>

definition base_class :: "'u ws_env \<Rightarrow> pyval \<Rightarrow> 'u ws_class" where
  "base_class env enc =
     \<lparr>encoding = enc,
      on_connect = (\<lambda>kwargs u. ws_accept env u),
      on_receive = (\<lambda>data u. (None, u)),
      on_disconnect = (\<lambda>close_code u. (None, u))\<rparr>"

text \<open>An instance: the class and the scope stored by \<^verbatim>\<open>__init__\<close>.\<close>

record 'u ws_endpoint =
  cls :: "'u ws_class"
  scope :: pydict

text \<open>
  The calls the dispatcher makes, in the order it makes them. An entry is appended when the
  call is made, before the callee runs, so a callee that raises has still been invoked.
\<close>

datatype event =
    OnConnect pyval
  | OnReceive pyval
  | OnDisconnect pyval
  | Close int

text \<open>
  One \<^verbatim>\<open>await websocket.receive()\<close>: it yields a message, or raises (the gateway cancelled
  the connection, the transport failed). An inbound channel is the list of what the
  successive calls yield; on an exhausted channel the call never resumes.
\<close>

datatype recv = Msg pydict | RecvFault error

datatype exit = Returned | Raised error | Pending

type_synonym 'u st = "event list \<times> 'u"

text \<open>\<^verbatim>\<open>WebSocketEndpoint.__init__\<close>: \<^verbatim>\<open>assert scope["type"] == "websocket"\<close>, then keep the scope.\<close>

definition ws_init :: "'u ws_class \<Rightarrow> pydict \<Rightarrow> error + 'u ws_endpoint" where
  "ws_init c sc =
     (case sc ''type'' of
        None \<Rightarrow> Inl (KeyError ''type'')
      | Some t \<Rightarrow>
          if t = VStr ''websocket'' then Inr \<lparr>cls = c, scope = sc\<rparr>
          else Inl AssertionError)"

text \<open>
  The mismatch branch of \<^verbatim>\<open>decode\<close>: \<^verbatim>\<open>await websocket.close(code=1003)\<close>, then
  \<^verbatim>\<open>raise RuntimeError(msg)\<close>. A fault of \<^verbatim>\<open>close\<close> itself propagates in its place.
\<close>

definition close_and_raise :: "'u ws_env \<Rightarrow> string \<Rightarrow> 'u st \<Rightarrow> (error + pyval) \<times> 'u st" where
  "close_and_raise env msg s =
     (case s of (tr, u) \<Rightarrow>
        (case ws_close env 1003 u of
           (Some e, u') \<Rightarrow> (Inl e, (tr @ [Close 1003], u'))
         | (None, u') \<Rightarrow> (Inl (RuntimeError msg), (tr @ [Close 1003], u'))))"

text \<open>\<^verbatim>\<open>WebSocketEndpoint.decode\<close>, branch by branch.\<close>

definition decode :: "'u ws_env \<Rightarrow> 'u ws_endpoint \<Rightarrow> pydict \<Rightarrow> 'u st \<Rightarrow> (error + pyval) \<times> 'u st" where
  "decode env self message s =
     (if encoding (cls self) = VStr ''text'' then
        (case message ''text'' of
           None \<Rightarrow> close_and_raise env ''Expected text websocket messages, but got bytes'' s
         | Some t \<Rightarrow> (Inr t, s))
      else if encoding (cls self) = VStr ''bytes'' then
        (case message ''bytes'' of
           None \<Rightarrow> close_and_raise env ''Expected bytes websocket messages, but got text'' s
         | Some b \<Rightarrow> (Inr b, s))
      else if encoding (cls self) = VStr ''json'' then
        (case message ''bytes'' of
           None \<Rightarrow> close_and_raise env
             ''Expected JSON to be transferred as bytes websocket messages, but got text'' s
         | Some b \<Rightarrow> (json_loads env b, s))
      else if encoding (cls self) \<noteq> VNone then (Inl AssertionError, s)
      else
        (case message ''text'' of
           Some t \<Rightarrow> (Inr t, s)
         | None \<Rightarrow>
             (case message ''bytes'' of
                Some b \<Rightarrow> (Inr b, s)
              | None \<Rightarrow> (Inl (KeyError ''bytes''), s))))"

text \<open>
  The body of the \<^verbatim>\<open>try\<close>: \<^verbatim>\<open>while True\<close> over the inbound channel, with the local variable
  \<^verbatim>\<open>close_code\<close> threaded through. It yields how the loop was left, the value of
  \<^verbatim>\<open>close_code\<close> then, the part of the channel not consumed, and the state.
\<close>

fun open_loop ::
  "'u ws_env \<Rightarrow> 'u ws_endpoint \<Rightarrow> recv list \<Rightarrow> pyval \<Rightarrow> 'u st \<Rightarrow> exit \<times> pyval \<times> recv list \<times> 'u st"
where
  "open_loop env self [] close_code s = (Pending, close_code, [], s)"
| "open_loop env self (RecvFault e # ms) close_code s = (Raised e, close_code, ms, s)"
| "open_loop env self (Msg message # ms) close_code s =
     (case message ''type'' of
        None \<Rightarrow> (Raised (KeyError ''type''), close_code, ms, s)
      | Some t \<Rightarrow>
          if t = VStr ''websocket.receive'' then
            (case decode env self message s of
               (Inl e, s') \<Rightarrow> (Raised e, close_code, ms, s')
             | (Inr data, (tr, u)) \<Rightarrow>
                 (case on_receive (cls self) data u of
                    (Some e, u') \<Rightarrow> (Raised e, close_code, ms, (tr @ [OnReceive data], u'))
                  | (None, u') \<Rightarrow> open_loop env self ms close_code (tr @ [OnReceive data], u')))
          else if t = VStr ''websocket.disconnect'' then
            (Returned, dict_get message ''code'' (VInt 1000), ms, s)
          else open_loop env self ms close_code s)"

text \<open>
  The \<^verbatim>\<open>try ... finally\<close> around the loop, entered with \<^verbatim>\<open>close_code = None\<close>: when the body
  is left, \<^verbatim>\<open>on_disconnect(websocket, close_code)\<close> runs, and a fault it raises replaces the
  body's outcome. A body that never leaves (\<open>Pending\<close>) never reaches \<^verbatim>\<open>finally\<close>.
\<close>

definition session :: "'u ws_env \<Rightarrow> 'u ws_endpoint \<Rightarrow> recv list \<Rightarrow> 'u st \<Rightarrow> exit \<times> recv list \<times> 'u st" where
  "session env self inbound s =
     (case open_loop env self inbound VNone s of
        (Pending, close_code, rest, s') \<Rightarrow> (Pending, rest, s')
      | (ex, close_code, rest, (tr, u)) \<Rightarrow>
          (case on_disconnect (cls self) close_code u of
             (Some e, u') \<Rightarrow> (Raised e, rest, (tr @ [OnDisconnect close_code], u'))
           | (None, u') \<Rightarrow> (ex, rest, (tr @ [OnDisconnect close_code], u'))))"

text \<open>
  \<^verbatim>\<open>WebSocketEndpoint.__call__\<close>: \<^verbatim>\<open>kwargs = self.scope.get("kwargs", {})\<close>, then
  \<^verbatim>\<open>on_connect\<close> outside the \<^verbatim>\<open>try\<close>, then the guarded loop.
\<close>

definition ws_call :: "'u ws_env \<Rightarrow> 'u ws_endpoint \<Rightarrow> recv list \<Rightarrow> 'u \<Rightarrow> exit \<times> recv list \<times> 'u st" where
  "ws_call env self inbound u =
     (let kwargs = dict_get (scope self) ''kwargs'' (VDict []) in
      case on_connect (cls self) kwargs u of
        (Some e, u') \<Rightarrow> (Raised e, inbound, ([OnConnect kwargs], u'))
      | (None, u') \<Rightarrow> session env self inbound ([OnConnect kwargs], u'))"

section \<open>The request endpoint (\<^verbatim>\<open>HTTPEndpoint\<close>)\<close>

text \<open>
  The request value object is built outside this repository's \<^verbatim>\<open>src/\<close>; the endpoint reads
  its \<^verbatim>\<open>method\<close>, a string (the field \<open>req_method\<close>). A response is the plain-text
  response the endpoint builds itself, or whatever value a handler hands back.
\<close>

record request =
  req_method :: string
  req_scope :: pydict

datatype 'r response =
    PlainTextResponse string int
  | HandlerResponse 'r

text \<open>
  An attribute that \<^verbatim>\<open>getattr\<close> finds on the instance: a coroutine function, a plain
  callable, or an object that cannot be called (calling it raises \<^verbatim>\<open>TypeError\<close>). The
  table \<open>attrs\<close> is the instance's whole attribute namespace: the handler methods of the
  subclass and whatever it inherits.
\<close>

datatype 'r attr =
    Coroutine "request \<Rightarrow> pyval \<Rightarrow> error + 'r response"
  | Callable "request \<Rightarrow> pyval \<Rightarrow> error + 'r response"
  | NotCallable pyval

record 'r http_endpoint =
  http_scope :: pydict
  attrs :: "string \<rightharpoonup> 'r attr"

text \<open>The calls \<^verbatim>\<open>dispatch\<close> makes, with their arguments.\<close>

datatype call =
    CallHandler string request pyval
  | CallMethodNotAllowed request pyval

text \<open>\<^verbatim>\<open>HTTPEndpoint.__init__\<close>: \<^verbatim>\<open>assert scope["type"] == "http"\<close>, then keep the scope.\<close>

definition http_init :: "(string \<rightharpoonup> 'r attr) \<Rightarrow> pydict \<Rightarrow> error + 'r http_endpoint" where
  "http_init members sc =
     (case sc ''type'' of
        None \<Rightarrow> Inl (KeyError ''type'')
      | Some t \<Rightarrow>
          if t = VStr ''http'' then Inr \<lparr>http_scope = sc, attrs = members\<rparr>
          else Inl AssertionError)"

text \<open>
  \<^verbatim>\<open>str.lower()\<close> on a method name. HTTP method names are ASCII tokens; on ASCII,
  \<^verbatim>\<open>lower\<close> moves \<^verbatim>\<open>A\<close>..\<^verbatim>\<open>Z\<close> (65..90) to \<^verbatim>\<open>a\<close>..\<^verbatim>\<open>z\<close> and leaves every other character alone.
\<close>

definition lower_char :: "char \<Rightarrow> char" where
  "lower_char c =
     (if 65 \<le> (of_char c :: nat) \<and> (of_char c :: nat) \<le> 90
      then char_of ((of_char c :: nat) + 32) else c)"

definition lower :: "string \<Rightarrow> string" where
  "lower s = map lower_char s"

text \<open>Line 23: \<^verbatim>\<open>"get" if request.method == "HEAD" else request.method.lower()\<close>.\<close>

definition handler_name :: "request \<Rightarrow> string" where
  "handler_name request =
     (if req_method request = ''HEAD'' then ''get'' else lower (req_method request))"

text \<open>\<^verbatim>\<open>HTTPEndpoint.method_not_allowed\<close>.\<close>

definition method_not_allowed ::
  "'r http_endpoint \<Rightarrow> request \<Rightarrow> pyval \<Rightarrow> error + 'r response" where
  "method_not_allowed self request kwargs =
     (if http_scope self ''app'' \<noteq> None then Inl (HTTPException 405)
      else Inr (PlainTextResponse ''Method Not Allowed'' 405))"

text \<open>
  \<^verbatim>\<open>HTTPEndpoint.dispatch\<close>: \<^verbatim>\<open>getattr(self, handler_name, self.method_not_allowed)\<close>, then
  the call, awaited or not. It yields the response or the fault, and the call it made.
\<close>

definition dispatch ::
  "'r http_endpoint \<Rightarrow> request \<Rightarrow> pyval \<Rightarrow> (error + 'r response) \<times> call list" where
  "dispatch self request kwargs =
     (case attrs self (handler_name request) of
        None \<Rightarrow>
          (method_not_allowed self request kwargs, [CallMethodNotAllowed request kwargs])
      | Some handler \<Rightarrow>
          (case handler of
             Coroutine f \<Rightarrow>
               (f request kwargs, [CallHandler (handler_name request) request kwargs])
           | Callable f \<Rightarrow>
               (f request kwargs, [CallHandler (handler_name request) request kwargs])
           | NotCallable v \<Rightarrow>
               (Inl TypeError, [CallHandler (handler_name request) request kwargs])))"

section \<open>The application facade (\<^verbatim>\<open>Starlette\<close>)\<close>

text \<open>
  A reference to an ASGI application held by the facade: the facade's one router object, or
  an instance \<^verbatim>\<open>middleware_class(app, **kwargs)\<close> built around another reference.
\<close>

datatype asgi =
    Router
  | Middleware string pyval asgi

text \<open>
  What \<^verbatim>\<open>add_route\<close> is given: a class (\<^verbatim>\<open>inspect.isclass\<close> holds) or any other object, a
  routine. What a route stores: the object as given, or the application an adapter made
  from it.
\<close>

datatype route_obj = ClassObj string | RoutineObj string

datatype endpoint_app =
    AsGiven route_obj
  | RequestResponse route_obj
  | WebsocketSession route_obj

fun isclass :: "route_obj \<Rightarrow> bool" where
  "isclass (ClassObj n) = True"
| "isclass (RoutineObj n) = False"

text \<open>\<^verbatim>\<open>request_response\<close> and \<^verbatim>\<open>websocket_session\<close> return the closure \<^verbatim>\<open>app\<close> over \<^verbatim>\<open>func\<close>.\<close>

definition request_response :: "route_obj \<Rightarrow> endpoint_app" where
  "request_response func = RequestResponse func"

definition websocket_session :: "route_obj \<Rightarrow> endpoint_app" where
  "websocket_session func = WebsocketSession func"

text \<open>\<^verbatim>\<open>Path(path, route, protocol=..., methods=...)\<close>: the arguments of the constructor.\<close>

record route =
  path :: string
  endpoint :: endpoint_app
  protocol :: string
  methods :: "string list option"

text \<open>
  The facade: \<^verbatim>\<open>self.router.routes\<close>, \<^verbatim>\<open>self.app\<close>, and the two attributes of
  \<^verbatim>\<open>self.exception_middleware\<close> that the facade reads and writes.
\<close>

record starlette =
  routes :: "route list"
  app :: asgi
  exception_middleware_app :: asgi
  exception_middleware_debug :: bool

definition starlette_init :: "bool \<Rightarrow> starlette" where
  "starlette_init debug =
     \<lparr>routes = [], app = Router, exception_middleware_app = Router,
      exception_middleware_debug = debug\<rparr>"

text \<open>\<^verbatim>\<open>add_middleware\<close>: \<^verbatim>\<open>self.exception_middleware.app = middleware_class(self.app, **kwargs)\<close>.\<close>

definition add_middleware :: "starlette \<Rightarrow> string \<Rightarrow> pyval \<Rightarrow> starlette" where
  "add_middleware self middleware_class kwargs =
     self\<lparr>exception_middleware_app := Middleware middleware_class kwargs (app self)\<rparr>"

text \<open>Successive \<^verbatim>\<open>add_middleware\<close> calls, first registration first.\<close>

definition add_middlewares :: "starlette \<Rightarrow> (string \<times> pyval) list \<Rightarrow> starlette" where
  "add_middlewares self regs = foldl (\<lambda>s (m, k). add_middleware s m k) self regs"

text \<open>The chain the calls are said to build: each middleware around the chain before it.\<close>

definition stacked :: "(string \<times> pyval) list \<Rightarrow> asgi" where
  "stacked regs = foldl (\<lambda>a (m, k). Middleware m k a) Router regs"

text \<open>\<^verbatim>\<open>add_route\<close> and \<^verbatim>\<open>add_websocket_route\<close>.\<close>

definition add_route :: "starlette \<Rightarrow> string \<Rightarrow> route_obj \<Rightarrow> string list option \<Rightarrow> starlette" where
  "add_route self p r ms =
     (let (r', ms') =
        (if \<not> isclass r
         then (request_response r, (if ms = None then Some [''GET''] else ms))
         else (AsGiven r, ms))
      in self\<lparr>routes := routes self @
           [\<lparr>path = p, endpoint = r', protocol = ''http'', methods = ms'\<rparr>]\<rparr>)"

definition add_websocket_route :: "starlette \<Rightarrow> string \<Rightarrow> route_obj \<Rightarrow> starlette" where
  "add_websocket_route self p r =
     (let r' = (if \<not> isclass r then websocket_session r else AsGiven r)
      in self\<lparr>routes := routes self @
           [\<lparr>path = p, endpoint = r', protocol = ''websocket'', methods = None\<rparr>]\<rparr>)"

text \<open>
  \<^verbatim>\<open>Starlette.__call__\<close>. In Python \<^verbatim>\<open>self\<close> is a reference: the facade is given by its identity
  \<open>this\<close> and by its attributes \<open>self\<close>, and \<^verbatim>\<open>scope["app"] = self\<close> stores the reference
  \<open>VObj this\<close>. The scope is the caller's dictionary and the assignment writes into it, so
  the call yields the dictionary as it is afterwards together with the collaborator the
  connection was handed to: the lifecycle handler, or the exception wrapper (with the
  application it wraps and its debug flag), each with the scope it was given.
\<close>

datatype delegate =
    ToLifespan pydict
  | ToExceptionMiddleware asgi bool pydict

definition starlette_call ::
  "string \<Rightarrow> starlette \<Rightarrow> pydict \<Rightarrow> (error + delegate) \<times> pydict" where
  "starlette_call this self sc =
     (case sc ''type'' of
        None \<Rightarrow> (Inl (KeyError ''type''), sc)
      | Some t \<Rightarrow>
          if t = VStr ''lifespan'' then (Inr (ToLifespan sc), sc)
          else
            (Inr (ToExceptionMiddleware (exception_middleware_app self)
                    (exception_middleware_debug self) (sc(''app'' \<mapsto> VObj this))),
             sc(''app'' \<mapsto> VObj this)))"

text \<open>
  Modelled from the spec: the \<^verbatim>\<open>Path\<close> route of \<^verbatim>\<open>starlette.routing\<close> is not under \<^verbatim>\<open>src/\<close>.
  Section 8 of the specification: a route registered with a method set is restricted to it,
  and a request whose method is outside the set reaches method-not-allowed; a route with no
  method set takes every method.
\<close>

datatype routed = ToEndpoint endpoint_app | MethodNotAllowed

definition path_call :: "route \<Rightarrow> string \<Rightarrow> routed" where
  "path_call r m =
     (case methods r of
        None \<Rightarrow> ToEndpoint (endpoint r)
      | Some ms \<Rightarrow> if m \<in> set ms then ToEndpoint (endpoint r) else MethodNotAllowed)"

section \<open>Reading a trace\<close>

text \<open>The close codes \<^verbatim>\<open>on_disconnect\<close> was invoked with, and the data \<^verbatim>\<open>on_receive\<close> was.\<close>

fun disconnect_codes :: "event list \<Rightarrow> pyval list" where
  "disconnect_codes [] = []"
| "disconnect_codes (OnDisconnect c # es) = c # disconnect_codes es"
| "disconnect_codes (e # es) = disconnect_codes es"

fun received :: "event list \<Rightarrow> pyval list" where
  "received [] = []"
| "received (OnReceive d # es) = d # received es"
| "received (e # es) = received es"

text \<open>
  An inbound item is a disconnect message when its \<^verbatim>\<open>type\<close> is \<^verbatim>\<open>websocket.disconnect\<close>; the
  close code such an item carries is its \<^verbatim>\<open>code\<close> entry, 1000 without one. Any other item
  carries none.
\<close>

definition is_disconnect :: "recv \<Rightarrow> bool" where
  "is_disconnect x =
     (case x of
        RecvFault e \<Rightarrow> False
      | Msg m \<Rightarrow> m ''type'' = Some (VStr ''websocket.disconnect''))"

definition close_code_of :: "recv \<Rightarrow> pyval" where
  "close_code_of x =
     (case x of
        RecvFault e \<Rightarrow> VNone
      | Msg m \<Rightarrow>
          if m ''type'' = Some (VStr ''websocket.disconnect'')
          then dict_get m ''code'' (VInt 1000) else VNone)"





text \<open>Fixtures: a session whose primitives succeed, with no application state.\<close>

definition quiet_env :: "unit ws_env" where
  "quiet_env =
     \<lparr>ws_accept = (\<lambda>u. (None, u)),
      ws_close = (\<lambda>code u. (None, u)),
      json_loads = (\<lambda>b. Inr b)\<rparr>"

definition ws_scope :: pydict where
  "ws_scope = [''type'' \<mapsto> VStr ''websocket'']"

definition endpoint_with :: "pyval \<Rightarrow> unit ws_endpoint" where
  "endpoint_with enc = \<lparr>cls = base_class quiet_env enc, scope = ws_scope\<rparr>"

definition receive_text :: "string \<Rightarrow> pydict" where
  "receive_text t = [''type'' \<mapsto> VStr ''websocket.receive'', ''text'' \<mapsto> VStr t]"

definition receive_bytes :: "string \<Rightarrow> pydict" where
  "receive_bytes b = [''type'' \<mapsto> VStr ''websocket.receive'', ''bytes'' \<mapsto> VBytes b]"

definition disconnect_with :: "int \<Rightarrow> pydict" where
  "disconnect_with c = [''type'' \<mapsto> VStr ''websocket.disconnect'', ''code'' \<mapsto> VInt c]"

definition disconnect_plain :: pydict where
  "disconnect_plain = [''type'' \<mapsto> VStr ''websocket.disconnect'']"

text \<open>A subclass whose \<^verbatim>\<open>on_connect\<close> raises.\<close>

definition refusing_class :: "unit ws_class" where
  "refusing_class =
     (base_class quiet_env VNone)\<lparr>on_connect := (\<lambda>kwargs u. (Some (Fault ''refused''), u))\<rparr>"

text \<open>
  A request endpoint that defines \<^verbatim>\<open>get\<close> only, standalone and under the facade, and
  requests to send it.
\<close>

definition plain_http_scope :: pydict where
  "plain_http_scope = [''type'' \<mapsto> VStr ''http'']"

definition get_only :: "string \<rightharpoonup> unit attr" where
  "get_only = [''get'' \<mapsto> Coroutine (\<lambda>request kwargs. Inr (HandlerResponse ()))]"

definition standalone_endpoint :: "unit http_endpoint" where
  "standalone_endpoint = \<lparr>http_scope = plain_http_scope, attrs = get_only\<rparr>"

definition managed_endpoint :: "unit http_endpoint" where
  "managed_endpoint = \<lparr>http_scope = plain_http_scope(''app'' \<mapsto> VObj ''app''), attrs = get_only\<rparr>"

definition request_with :: "string \<Rightarrow> request" where
  "request_with m = \<lparr>req_method = m, req_scope = plain_http_scope\<rparr>"

text \<open>
  A session whose primitives leave a mark in the application state, and a subclass whose
  callbacks do: the state is the list of what was accepted, closed, received and
  disconnected, in order.
\<close>

definition recording_env :: "pyval list ws_env" where
  "recording_env =
     \<lparr>ws_accept = (\<lambda>u. (None, u @ [VStr ''accepted''])),
      ws_close = (\<lambda>code u. (None, u @ [VStr ''closed'', VInt code])),
      json_loads = (\<lambda>b. Inr b)\<rparr>"

definition recording_class :: "pyval \<Rightarrow> pyval list ws_class" where
  "recording_class enc =
     (base_class recording_env enc)
       \<lparr>on_receive := (\<lambda>data u. (None, u @ [data])),
        on_disconnect := (\<lambda>close_code u. (None, u @ [VStr ''disconnected'', close_code]))\<rparr>"

definition recording_endpoint :: "pyval \<Rightarrow> pyval list ws_endpoint" where
  "recording_endpoint enc = \<lparr>cls = recording_class enc, scope = ws_scope\<rparr>"

text \<open>The same subclass with an \<^verbatim>\<open>on_receive\<close> that raises, and one whose cleanup raises.\<close>

definition raising_receive_endpoint :: "pyval list ws_endpoint" where
  "raising_receive_endpoint =
     \<lparr>cls = (recording_class (VStr ''text''))
              \<lparr>on_receive := (\<lambda>data u. (Some (Fault ''handler failed''), u @ [data]))\<rparr>,
      scope = ws_scope\<rparr>"

definition raising_cleanup_endpoint :: "pyval list ws_endpoint" where
  "raising_cleanup_endpoint =
     \<lparr>cls = (recording_class (VStr ''text''))
              \<lparr>on_disconnect :=
                 (\<lambda>close_code u. (Some (Fault ''cleanup failed''), u @ [close_code]))\<rparr>,
      scope = ws_scope\<rparr>"

text \<open>A binary message in the gateway's format: both keys, \<^verbatim>\<open>text\<close> holding \<^verbatim>\<open>None\<close>.\<close>

definition binary_frame :: "string \<Rightarrow> pydict" where
  "binary_frame b =
     [''type'' \<mapsto> VStr ''websocket.receive'', ''text'' \<mapsto> VNone, ''bytes'' \<mapsto> VBytes b]"

section \<open>A connection from scope to completion\<close>

text \<open>
  The two phases of a connection handler, with the scope dictionary as explicit state: each
  definition takes the caller's dictionary and yields, with its result, the dictionary as it
  is when the connection completes. The request object \<^verbatim>\<open>Request(scope, receive=receive)\<close> is
  built outside \<^verbatim>\<open>src/\<close>; its constructor is the parameter \<open>mk_request\<close>.
\<close>

text \<open>
  The closure returned by \<^verbatim>\<open>request_response(func)\<close>, applied to a scope and awaited:
  \<^verbatim>\<open>kwargs = scope.get("kwargs", {})\<close>, then \<^verbatim>\<open>func(request, **kwargs)\<close>, awaited or not.
\<close>

definition request_response_app ::
  "'r attr \<Rightarrow> (pydict \<Rightarrow> request) \<Rightarrow> pydict \<Rightarrow> (error + 'r response) \<times> pydict" where
  "request_response_app func mk_request sc =
     (let request = mk_request sc;
          kwargs = dict_get sc ''kwargs'' (VDict [])
      in case func of
           Coroutine f \<Rightarrow> (f request kwargs, sc)
         | Callable f \<Rightarrow> (f request kwargs, sc)
         | NotCallable v \<Rightarrow> (Inl TypeError, sc))"

text \<open>
  The closure returned by \<^verbatim>\<open>websocket_session(func)\<close>, applied to a scope and awaited:
  \<^verbatim>\<open>kwargs = scope.get("kwargs", {})\<close>, then \<^verbatim>\<open>await func(session, **kwargs)\<close>.
\<close>

definition websocket_session_app ::
  "(pyval \<Rightarrow> 'u \<Rightarrow> error option \<times> 'u) \<Rightarrow> pydict \<Rightarrow> 'u \<Rightarrow> (error option \<times> 'u) \<times> pydict" where
  "websocket_session_app func sc u =
     (let kwargs = dict_get sc ''kwargs'' (VDict []) in (func kwargs u, sc))"

text \<open>
  \<^verbatim>\<open>HTTPEndpoint(scope)(receive, send)\<close>: the constructor, then \<^verbatim>\<open>__call__\<close>, which builds the
  request from \<^verbatim>\<open>self.scope\<close>, reads \<^verbatim>\<open>kwargs\<close> from it and dispatches. The dictionary afterwards
  is the one the instance holds.
\<close>

definition http_endpoint_app ::
  "(string \<rightharpoonup> 'r attr) \<Rightarrow> (pydict \<Rightarrow> request) \<Rightarrow> pydict
     \<Rightarrow> ((error + 'r response) \<times> call list) \<times> pydict" where
  "http_endpoint_app members mk_request sc =
     (case http_init members sc of
        Inl e \<Rightarrow> ((Inl e, []), sc)
      | Inr self \<Rightarrow>
          (let request = mk_request (http_scope self);
               kwargs = dict_get (http_scope self) ''kwargs'' (VDict [])
           in (dispatch self request kwargs, http_scope self)))"

text \<open>\<^verbatim>\<open>WebSocketEndpoint(scope)(receive, send)\<close>: the constructor, then \<^verbatim>\<open>__call__\<close>.\<close>

definition ws_endpoint_app ::
  "'u ws_env \<Rightarrow> 'u ws_class \<Rightarrow> pydict \<Rightarrow> recv list \<Rightarrow> 'u
     \<Rightarrow> (exit \<times> recv list \<times> 'u st) \<times> pydict" where
  "ws_endpoint_app env c sc inbound u =
     (case ws_init c sc of
        Inl e \<Rightarrow> ((Raised e, inbound, ([], u)), sc)
      | Inr self \<Rightarrow> (ws_call env self inbound u, scope self))"

section \<open>The session loop\<close>

lemma disconnect_codes_append:
  "disconnect_codes (a @ b) = disconnect_codes a @ disconnect_codes b"
  by (induction a rule: disconnect_codes.induct) auto

lemma decode_trace:
  "decode env self message (tr, u) = (r, (tr', u')) \<Longrightarrow>
     tr' = tr \<or> (tr' = tr @ [Close 1003] \<and> (\<exists>e. r = Inl e))"
  by (auto simp: decode_def close_and_raise_def split: if_splits option.splits prod.splits)

lemma decode_Inr_state:
  "decode env self message s = (Inr d, s') \<Longrightarrow> s' = s"
  by (cases s) (auto simp: decode_def close_and_raise_def split: if_splits option.splits prod.splits)



lemma open_loop_iteration:
  "(\<exists>ex cc' s' evs. ex \<noteq> Pending
       \<and> (\<forall>ms. open_loop env self (x # ms) cc s = (ex, cc', ms, s'))
       \<and> fst s' = fst s @ evs \<and> disconnect_codes evs = []
       \<and> (if is_disconnect x then ex = Returned \<and> cc' = close_code_of x
           else (\<exists>e. ex = Raised e) \<and> cc' = cc))
   \<or> (\<exists>s1 evs. (\<forall>ms. open_loop env self (x # ms) cc s = open_loop env self ms cc s1)
       \<and> fst s1 = fst s @ evs \<and> disconnect_codes evs = [] \<and> \<not> is_disconnect x)"
proof (cases x)
  case (RecvFault e)
  then show ?thesis by (simp add: is_disconnect_def)
next
  case (Msg message)
  obtain tr u where s: "s = (tr, u)" by (cases s)
  show ?thesis
  proof (cases "message ''type''")
    case None
    with Msg show ?thesis by (simp add: is_disconnect_def)
  next
    case (Some t)
    consider (rcv) "t = VStr ''websocket.receive''"
      | (disc) "t = VStr ''websocket.disconnect''"
      | (other) "t \<noteq> VStr ''websocket.receive''" "t \<noteq> VStr ''websocket.disconnect''"
      by blast
    then show ?thesis
    proof cases
      case rcv
      obtain r tr1 u1 where d: "decode env self message (tr, u) = (r, (tr1, u1))"
        by (metis surj_pair)
      show ?thesis
      proof (cases r)
        case (Inl e)
        from decode_trace[OF d] have "tr1 = tr \<or> tr1 = tr @ [Close 1003]" by blast
        then have "\<exists>evs. tr1 = tr @ evs \<and> disconnect_codes evs = []" by auto
        with Inl d rcv Some Msg s show ?thesis by (simp add: is_disconnect_def)
      next
        case (Inr data)
        with d decode_Inr_state have eq: "tr1 = tr" "u1 = u" by fastforce+
        obtain o1 u2 where c: "on_receive (cls self) data u = (o1, u2)"
          by (metis surj_pair)
        have ev: "disconnect_codes [OnReceive data] = []" by simp
        show ?thesis
        proof (cases o1)
          case None
          with c d Inr eq rcv \<open>message ''type'' = Some t\<close> Msg s
          have "\<forall>ms. open_loop env self (x # ms) cc s =
                  open_loop env self ms cc (tr @ [OnReceive data], u2)"
            by simp
          moreover have "\<not> is_disconnect x"
            using rcv \<open>message ''type'' = Some t\<close> Msg by (simp add: is_disconnect_def)
          ultimately show ?thesis
            using ev s by (intro disjI2 exI[of _ "(tr @ [OnReceive data], u2)"]
              exI[of _ "[OnReceive data]"]) simp
        next
          case (Some e)
          with c d Inr eq rcv \<open>message ''type'' = Some t\<close> Msg s ev show ?thesis
            by (simp add: is_disconnect_def)
        qed
      qed
    next
      case disc
      with Some Msg show ?thesis by (simp add: is_disconnect_def close_code_of_def)
    next
      case other
      with Some Msg have "\<forall>ms. open_loop env self (x # ms) cc s = open_loop env self ms cc s"
        by simp
      moreover have "\<not> is_disconnect x"
        using other Some Msg by (simp add: is_disconnect_def)
      ultimately show ?thesis
        by (intro disjI2 exI[of _ s] exI[of _ "[]"]) simp
    qed
  qed
qed


lemma open_loop_result:
  "open_loop env self ms cc s = (ex, cc', rest, s') \<Longrightarrow>
     (\<exists>evs. fst s' = fst s @ evs \<and> disconnect_codes evs = []) \<and>
     (if ex = Pending then cc' = cc \<and> rest = []
      else \<exists>pre x. ms = pre @ x # rest \<and> (\<forall>y \<in> set pre. \<not> is_disconnect y) \<and>
             (if is_disconnect x then ex = Returned \<and> cc' = close_code_of x
              else (\<exists>e. ex = Raised e) \<and> cc' = cc))"
proof (induction ms arbitrary: s)
  case Nil
  then show ?case by auto
next
  case (Cons x ms)
  from open_loop_iteration[of env self x cc s]
  consider (leave) ex0 cc0 s0 evs where "ex0 \<noteq> Pending"
      "\<forall>ms. open_loop env self (x # ms) cc s = (ex0, cc0, ms, s0)"
      "fst s0 = fst s @ evs" "disconnect_codes evs = []"
      "if is_disconnect x then ex0 = Returned \<and> cc0 = close_code_of x
       else (\<exists>e. ex0 = Raised e) \<and> cc0 = cc"
    | (stay) s1 evs where
      "\<forall>ms. open_loop env self (x # ms) cc s = open_loop env self ms cc s1"
      "fst s1 = fst s @ evs" "disconnect_codes evs = []" "\<not> is_disconnect x"
    by blast
  then show ?case
  proof cases
    case leave
    with Cons.prems have eq: "ex = ex0" "cc' = cc0" "rest = ms" "s' = s0" by simp_all
    have "x # ms = [] @ x # rest \<and> (\<forall>y \<in> set []. \<not> is_disconnect y)" using eq by simp
    with leave eq show ?thesis by (metis (full_types))
  next
    case stay
    with Cons.prems have run: "open_loop env self ms cc s1 = (ex, cc', rest, s')" by simp
    note ih = Cons.IH[OF run]
    from ih stay have tr: "\<exists>evs. fst s' = fst s @ evs \<and> disconnect_codes evs = []"
      by (auto simp: disconnect_codes_append)
    show ?thesis
    proof (cases "ex = Pending")
      case True
      with ih tr show ?thesis by simp
    next
      case False
      with ih obtain pre y where p: "ms = pre @ y # rest" "\<forall>z \<in> set pre. \<not> is_disconnect z"
        "if is_disconnect y then ex = Returned \<and> cc' = close_code_of y
         else (\<exists>e. ex = Raised e) \<and> cc' = cc"
        by auto
      then have "x # ms = (x # pre) @ y # rest \<and> (\<forall>z \<in> set (x # pre). \<not> is_disconnect z)"
        using stay by simp
      with p(3) False tr show ?thesis by (metis (full_types))
    qed
  qed
qed

lemma open_loop_append:
  "open_loop env self pre cc s = (Pending, cc', rest, s') \<Longrightarrow>
     open_loop env self (pre @ xs) cc s = open_loop env self xs cc s'"
proof (induction pre arbitrary: s)
  case Nil
  then show ?case by simp
next
  case (Cons x pre)
  from open_loop_iteration[of env self x cc s]
  consider (leave) ex0 cc0 s0 where "ex0 \<noteq> Pending"
      "\<forall>ms. open_loop env self (x # ms) cc s = (ex0, cc0, ms, s0)"
    | (stay) s1 where
      "\<forall>ms. open_loop env self (x # ms) cc s = open_loop env self ms cc s1"
    by blast
  then show ?case
  proof cases
    case leave
    with Cons.prems show ?thesis by simp
  next
    case stay
    with Cons.prems have "open_loop env self pre cc s1 = (Pending, cc', rest, s')" by simp
    from Cons.IH[OF this] stay show ?thesis by simp
  qed
qed


text \<open>
  The loop is left as soon as the channel delivers a disconnect message or a fault: it stays
  pending only on a channel that holds neither.
\<close>

lemma open_loop_leaves:
  "\<exists>x \<in> set ms. is_disconnect x \<or> (\<exists>e. x = RecvFault e) \<Longrightarrow>
     fst (open_loop env self ms cc s) \<noteq> Pending"
proof (induction ms arbitrary: s)
  case Nil
  then show ?case by simp
next
  case (Cons x ms)
  show ?case
  proof (cases x)
    case (RecvFault e)
    then show ?thesis by simp
  next
    case (Msg message)
    from open_loop_iteration[of env self x cc s]
    consider (leave) ex0 cc0 s0 where "ex0 \<noteq> Pending"
        "\<forall>ms. open_loop env self (x # ms) cc s = (ex0, cc0, ms, s0)"
      | (stay) s1 where
        "\<forall>ms. open_loop env self (x # ms) cc s = open_loop env self ms cc s1"
        "\<not> is_disconnect x"
      by blast
    then show ?thesis
    proof cases
      case leave
      then show ?thesis by simp
    next
      case stay
      with Cons.prems Msg have "\<exists>y \<in> set ms. is_disconnect y \<or> (\<exists>e. y = RecvFault e)"
        by auto
      from Cons.IH[OF this] stay show ?thesis by simp
    qed
  qed
qed

section \<open>Properties of the session endpoint\<close>

lemmas fixture_defs =
  quiet_env_def endpoint_with_def base_class_def ws_scope_def receive_text_def
  receive_bytes_def disconnect_with_def disconnect_plain_def

lemmas recording_defs =
  recording_env_def recording_class_def recording_endpoint_def raising_receive_endpoint_def
  raising_cleanup_endpoint_def binary_frame_def base_class_def ws_scope_def receive_text_def
  receive_bytes_def disconnect_with_def disconnect_plain_def

text \<open>
  Once \<^verbatim>\<open>on_connect\<close> has returned, \<^verbatim>\<open>__call__\<close> is the guarded loop; once the loop is left,
  the \<^verbatim>\<open>finally\<close> clause decides the outcome.
\<close>

lemma ws_call_entered:
  "on_connect (cls self) (dict_get (scope self) ''kwargs'' (VDict [])) u = (None, u0) \<Longrightarrow>
     ws_call env self inbound u =
       session env self inbound ([OnConnect (dict_get (scope self) ''kwargs'' (VDict []))], u0)"
  by (simp add: ws_call_def Let_def)

lemma session_leaves:
  "open_loop env self inbound VNone s = (ex0, cc, rest, (tr0, u0)) \<Longrightarrow> ex0 \<noteq> Pending \<Longrightarrow>
     session env self inbound s =
       (case on_disconnect (cls self) cc u0 of
          (o1, u2) \<Rightarrow> ((case o1 of None \<Rightarrow> ex0 | Some e \<Rightarrow> Raised e), rest,
                       (tr0 @ [OnDisconnect cc], u2)))"
  by (cases ex0) (auto simp: session_def split: prod.splits option.splits)

lemma recording_kwargs:
  "dict_get (scope (recording_endpoint enc)) ''kwargs'' (VDict []) = VDict []"
  "dict_get (scope raising_receive_endpoint) ''kwargs'' (VDict []) = VDict []"
  "dict_get (scope raising_cleanup_endpoint) ''kwargs'' (VDict []) = VDict []"
  by (simp_all add: dict_get_def recording_defs)

text \<open>
  C1. Let \<^verbatim>\<open>on_connect\<close> have returned and the messages \<open>pre\<close> have left the loop running, in
  state \<open>u1\<close> after the calls \<open>tr1\<close>, none of them to \<^verbatim>\<open>on_disconnect\<close>. Then on every way out
  of the loop the call ends, \<^verbatim>\<open>on_disconnect\<close> is applied once to the state reached, as the
  last call, and its own outcome is the call's unless it returns normally:
  \<^item> a disconnect message: close code its \<^verbatim>\<open>code\<close> entry, 1000 without one; the call returns;
  \<^item> a fault of \<^verbatim>\<open>receive\<close>, a message without \<^verbatim>\<open>type\<close>, a fault of \<^verbatim>\<open>decode\<close>, a fault of
    \<^verbatim>\<open>on_receive\<close>: close code \<^verbatim>\<open>None\<close>; the fault propagates.
  A channel that holds a disconnect message or a fault never leaves the call pending; and
  whenever the call ends, the trace holds exactly one \<^verbatim>\<open>on_disconnect\<close>, the last entry, with
  the close code of the item on which the loop was left.
\<close>

theorem on_disconnect_exactly_once:
  assumes conn: "on_connect (cls self) (dict_get (scope self) ''kwargs'' (VDict [])) u = (None, u0)"
    and run: "open_loop env self pre VNone
                ([OnConnect (dict_get (scope self) ''kwargs'' (VDict []))], u0)
              = (Pending, cc0, r0, (tr1, u1))"
  shows "disconnect_codes tr1 = []
    \<and> (m ''type'' = Some (VStr ''websocket.disconnect'') \<longrightarrow>
         ws_call env self (pre @ Msg m # ms) u =
           (case on_disconnect (cls self) (dict_get m ''code'' (VInt 1000)) u1 of
              (o1, u2) \<Rightarrow> ((case o1 of None \<Rightarrow> Returned | Some e' \<Rightarrow> Raised e'), ms,
                           (tr1 @ [OnDisconnect (dict_get m ''code'' (VInt 1000))], u2))))
    \<and> ws_call env self (pre @ RecvFault e # ms) u =
           (case on_disconnect (cls self) VNone u1 of
              (o1, u2) \<Rightarrow> (Raised (case o1 of None \<Rightarrow> e | Some e' \<Rightarrow> e'), ms,
                           (tr1 @ [OnDisconnect VNone], u2)))
    \<and> (m ''type'' = None \<longrightarrow>
         ws_call env self (pre @ Msg m # ms) u =
           (case on_disconnect (cls self) VNone u1 of
              (o1, u2) \<Rightarrow> (Raised (case o1 of None \<Rightarrow> KeyError ''type'' | Some e' \<Rightarrow> e'), ms,
                           (tr1 @ [OnDisconnect VNone], u2))))
    \<and> (m ''type'' = Some (VStr ''websocket.receive'')
          \<and> decode env self m (tr1, u1) = (Inl e, (tr2, u2)) \<longrightarrow>
         ws_call env self (pre @ Msg m # ms) u =
           (case on_disconnect (cls self) VNone u2 of
              (o1, u3) \<Rightarrow> (Raised (case o1 of None \<Rightarrow> e | Some e' \<Rightarrow> e'), ms,
                           (tr2 @ [OnDisconnect VNone], u3)))
         \<and> disconnect_codes tr2 = [])
    \<and> (m ''type'' = Some (VStr ''websocket.receive'')
          \<and> decode env self m (tr1, u1) = (Inr d, s')
          \<and> on_receive (cls self) d u1 = (Some e, u2) \<longrightarrow>
         ws_call env self (pre @ Msg m # ms) u =
           (case on_disconnect (cls self) VNone u2 of
              (o1, u3) \<Rightarrow> (Raised (case o1 of None \<Rightarrow> e | Some e' \<Rightarrow> e'), ms,
                           (tr1 @ [OnReceive d, OnDisconnect VNone], u3))))
    \<and> ((\<exists>x \<in> set inbound. is_disconnect x \<or> (\<exists>e'. x = RecvFault e')) \<longrightarrow>
         fst (ws_call env self inbound u) \<noteq> Pending)
    \<and> (ws_call env self inbound u = (ex, rest, (tr, u')) \<and> ex \<noteq> Pending \<longrightarrow>
         (\<exists>p x. inbound = p @ x # rest \<and> (\<forall>y \<in> set p. \<not> is_disconnect y) \<and>
            disconnect_codes tr = [close_code_of x] \<and> last tr = OnDisconnect (close_code_of x)))"
proof -
  let ?kw = "dict_get (scope self) ''kwargs'' (VDict [])"
  let ?s0 = "([OnConnect ?kw], u0)"
  note entered = ws_call_entered[OF conn]
  have cont: "\<And>xs. open_loop env self (pre @ xs) VNone ?s0 = open_loop env self xs VNone (tr1, u1)"
    by (rule open_loop_append[OF run])
  from open_loop_result[OF run] have c1: "disconnect_codes tr1 = []"
    by auto
  have c2: "ws_call env self (pre @ Msg m # ms) u =
           (case on_disconnect (cls self) (dict_get m ''code'' (VInt 1000)) u1 of
              (o1, u2) \<Rightarrow> ((case o1 of None \<Rightarrow> Returned | Some e' \<Rightarrow> Raised e'), ms,
                           (tr1 @ [OnDisconnect (dict_get m ''code'' (VInt 1000))], u2)))"
    if "m ''type'' = Some (VStr ''websocket.disconnect'')"
  proof -
    have "open_loop env self (pre @ Msg m # ms) VNone ?s0 =
            (Returned, dict_get m ''code'' (VInt 1000), ms, (tr1, u1))"
      using that by (simp add: cont)
    from session_leaves[OF this] show ?thesis by (simp add: entered)
  qed
  have c3: "ws_call env self (pre @ RecvFault e # ms) u =
           (case on_disconnect (cls self) VNone u1 of
              (o1, u2) \<Rightarrow> (Raised (case o1 of None \<Rightarrow> e | Some e' \<Rightarrow> e'), ms,
                           (tr1 @ [OnDisconnect VNone], u2)))"
  proof -
    have "open_loop env self (pre @ RecvFault e # ms) VNone ?s0 = (Raised e, VNone, ms, (tr1, u1))"
      by (simp add: cont)
    from session_leaves[OF this] show ?thesis
      by (simp add: entered split: prod.splits option.splits)
  qed
  have c4: "ws_call env self (pre @ Msg m # ms) u =
           (case on_disconnect (cls self) VNone u1 of
              (o1, u2) \<Rightarrow> (Raised (case o1 of None \<Rightarrow> KeyError ''type'' | Some e' \<Rightarrow> e'), ms,
                           (tr1 @ [OnDisconnect VNone], u2)))"
    if "m ''type'' = None"
  proof -
    have "open_loop env self (pre @ Msg m # ms) VNone ?s0 =
            (Raised (KeyError ''type''), VNone, ms, (tr1, u1))"
      using that by (simp add: cont)
    from session_leaves[OF this] show ?thesis
      by (simp add: entered split: prod.splits option.splits)
  qed
  have c5: "ws_call env self (pre @ Msg m # ms) u =
           (case on_disconnect (cls self) VNone u2 of
              (o1, u3) \<Rightarrow> (Raised (case o1 of None \<Rightarrow> e | Some e' \<Rightarrow> e'), ms,
                           (tr2 @ [OnDisconnect VNone], u3)))
         \<and> disconnect_codes tr2 = []"
    if "m ''type'' = Some (VStr ''websocket.receive'')"
      and "decode env self m (tr1, u1) = (Inl e, (tr2, u2))"
  proof -
    have "open_loop env self (pre @ Msg m # ms) VNone ?s0 = (Raised e, VNone, ms, (tr2, u2))"
      using that by (simp add: cont)
    from session_leaves[OF this] have "ws_call env self (pre @ Msg m # ms) u =
           (case on_disconnect (cls self) VNone u2 of
              (o1, u3) \<Rightarrow> (Raised (case o1 of None \<Rightarrow> e | Some e' \<Rightarrow> e'), ms,
                           (tr2 @ [OnDisconnect VNone], u3)))"
      by (simp add: entered split: prod.splits option.splits)
    moreover from decode_trace[OF that(2)] c1 have "disconnect_codes tr2 = []"
      by (auto simp: disconnect_codes_append)
    ultimately show ?thesis by simp
  qed
  have c6: "ws_call env self (pre @ Msg m # ms) u =
           (case on_disconnect (cls self) VNone u2 of
              (o1, u3) \<Rightarrow> (Raised (case o1 of None \<Rightarrow> e | Some e' \<Rightarrow> e'), ms,
                           (tr1 @ [OnReceive d, OnDisconnect VNone], u3)))"
    if "m ''type'' = Some (VStr ''websocket.receive'')"
      and "decode env self m (tr1, u1) = (Inr d, s')"
      and "on_receive (cls self) d u1 = (Some e, u2)"
  proof -
    from decode_Inr_state[OF that(2)] have "s' = (tr1, u1)" .
    with that have "open_loop env self (pre @ Msg m # ms) VNone ?s0 =
        (Raised e, VNone, ms, (tr1 @ [OnReceive d], u2))"
      by (simp add: cont)
    from session_leaves[OF this] show ?thesis
      by (simp add: entered split: prod.splits option.splits)
  qed
  have c7: "fst (ws_call env self inbound u) \<noteq> Pending"
    if "\<exists>x \<in> set inbound. is_disconnect x \<or> (\<exists>e'. x = RecvFault e')"
  proof -
    obtain ex0 cc rest0 tr0 w0 where
      loop: "open_loop env self inbound VNone ?s0 = (ex0, cc, rest0, (tr0, w0))"
      by (metis surj_pair)
    from open_loop_leaves[OF that, of env self VNone ?s0] loop have np: "ex0 \<noteq> Pending" by simp
    from session_leaves[OF loop np] np show ?thesis
      by (cases ex0) (auto simp: entered split: prod.splits option.splits)
  qed
  have c8: "\<exists>p x. inbound = p @ x # rest \<and> (\<forall>y \<in> set p. \<not> is_disconnect y) \<and>
            disconnect_codes tr = [close_code_of x] \<and> last tr = OnDisconnect (close_code_of x)"
    if ses: "ws_call env self inbound u = (ex, rest, (tr, u'))" and np0: "ex \<noteq> Pending"
  proof -
    obtain ex0 cc rest0 tr0 w0 where
      loop: "open_loop env self inbound VNone ?s0 = (ex0, cc, rest0, (tr0, w0))"
      by (metis surj_pair)
    have np: "ex0 \<noteq> Pending"
      using ses loop np0 by (cases ex0) (auto simp: entered session_def)
    from session_leaves[OF loop np] ses have fin: "rest = rest0" "tr = tr0 @ [OnDisconnect cc]"
      by (auto simp: entered split: prod.splits)
    from open_loop_result[OF loop] np obtain evs p x where
      tr0: "tr0 = [OnConnect ?kw] @ evs" "disconnect_codes evs = []"
      and dec: "inbound = p @ x # rest0" "\<forall>y \<in> set p. \<not> is_disconnect y"
      and cc: "if is_disconnect x then ex0 = Returned \<and> cc = close_code_of x
               else (\<exists>e. ex0 = Raised e) \<and> cc = VNone"
      by auto
    have "cc = close_code_of x"
      using cc by (auto simp: is_disconnect_def close_code_of_def split: recv.splits)
    with fin tr0 dec show ?thesis
      by (auto simp: disconnect_codes_append)
  qed
  from c1 c2 c3 c4 c5 c6 c7 c8 show ?thesis by blast
qed

text \<open>
  Three sessions: \<^verbatim>\<open>[disconnect()]\<close>; a text message and then a fault of \<^verbatim>\<open>receive\<close>; a
  disconnect with code 1001 on an endpoint whose \<^verbatim>\<open>on_disconnect\<close> raises.
\<close>

theorem on_disconnect_exactly_once_witness:
  "ws_call recording_env (recording_endpoint (VStr ''text'')) [Msg disconnect_plain] []
     = (Returned, [], ([OnConnect (VDict []), OnDisconnect (VInt 1000)],
          [VStr ''accepted'', VStr ''disconnected'', VInt 1000]))
   \<and> ws_call recording_env (recording_endpoint (VStr ''text''))
       ([Msg (receive_text ''hello'')] @ RecvFault (Fault ''cancelled'') # [Msg disconnect_plain]) []
     = (Raised (Fault ''cancelled''), [Msg disconnect_plain],
        ([OnConnect (VDict []), OnReceive (VStr ''hello''), OnDisconnect VNone],
          [VStr ''accepted'', VStr ''hello'', VStr ''disconnected'', VNone]))
   \<and> ws_call recording_env raising_cleanup_endpoint ([] @ Msg (disconnect_with 1001) # []) []
     = (Raised (Fault ''cleanup failed''), [],
        ([OnConnect (VDict []), OnDisconnect (VInt 1001)], [VStr ''accepted'', VInt 1001]))"
proof -
  let ?ep = "recording_endpoint (VStr ''text'')"
  have conn: "on_connect (cls ?ep) (dict_get (scope ?ep) ''kwargs'' (VDict [])) []
                = (None, [VStr ''accepted''])"
    by (simp add: recording_defs)
  have run0: "open_loop recording_env ?ep [] VNone
                ([OnConnect (dict_get (scope ?ep) ''kwargs'' (VDict []))], [VStr ''accepted''])
              = (Pending, VNone, [], ([OnConnect (VDict [])], [VStr ''accepted'']))"
    by (simp add: recording_kwargs)
  have run1: "open_loop recording_env ?ep [Msg (receive_text ''hello'')] VNone
                ([OnConnect (dict_get (scope ?ep) ''kwargs'' (VDict []))], [VStr ''accepted''])
              = (Pending, VNone, [],
                 ([OnConnect (VDict []), OnReceive (VStr ''hello'')],
                  [VStr ''accepted'', VStr ''hello'']))"
    by (simp add: dict_get_def decode_def recording_defs)
  have dtype: "disconnect_plain ''type'' = Some (VStr ''websocket.disconnect'')"
    "disconnect_with 1001 ''type'' = Some (VStr ''websocket.disconnect'')"
    by (simp_all add: recording_defs)
  have dcode: "dict_get disconnect_plain ''code'' (VInt 1000) = VInt 1000"
    "dict_get (disconnect_with 1001) ''code'' (VInt 1000) = VInt 1001"
    by (simp_all add: dict_get_def recording_defs)
  have odc: "\<And>cc w. on_disconnect (cls ?ep) cc w = (None, w @ [VStr ''disconnected'', cc])"
    "\<And>cc w. on_disconnect (cls raising_cleanup_endpoint) cc w
        = (Some (Fault ''cleanup failed''), w @ [cc])"
    by (simp_all add: recording_defs)
  have a: "ws_call recording_env ?ep [Msg disconnect_plain] []
     = (Returned, [], ([OnConnect (VDict []), OnDisconnect (VInt 1000)],
          [VStr ''accepted'', VStr ''disconnected'', VInt 1000]))"
    using on_disconnect_exactly_once[OF conn run0, where m = disconnect_plain and ms = "[]"] dtype
    by (simp add: dcode odc)
  have b: "ws_call recording_env ?ep
       ([Msg (receive_text ''hello'')] @ RecvFault (Fault ''cancelled'') # [Msg disconnect_plain]) []
     = (Raised (Fault ''cancelled''), [Msg disconnect_plain],
        ([OnConnect (VDict []), OnReceive (VStr ''hello''), OnDisconnect VNone],
          [VStr ''accepted'', VStr ''hello'', VStr ''disconnected'', VNone]))"
    using on_disconnect_exactly_once[OF conn run1, where e = "Fault ''cancelled''"
        and ms = "[Msg disconnect_plain]"]
    by (simp add: odc)
  let ?rc = raising_cleanup_endpoint
  have conn': "on_connect (cls ?rc) (dict_get (scope ?rc) ''kwargs'' (VDict [])) []
                = (None, [VStr ''accepted''])"
    by (simp add: recording_defs)
  have run': "open_loop recording_env ?rc [] VNone
                ([OnConnect (dict_get (scope ?rc) ''kwargs'' (VDict []))], [VStr ''accepted''])
              = (Pending, VNone, [], ([OnConnect (VDict [])], [VStr ''accepted'']))"
    by (simp add: recording_kwargs)
  have c: "ws_call recording_env ?rc ([] @ Msg (disconnect_with 1001) # []) []
     = (Raised (Fault ''cleanup failed''), [],
        ([OnConnect (VDict []), OnDisconnect (VInt 1001)], [VStr ''accepted'', VInt 1001]))"
    using on_disconnect_exactly_once[OF conn' run', where m = "disconnect_with 1001"
        and ms = "[]"] dtype
    by (simp add: dcode odc)
  from a b c show ?thesis by simp
qed

text \<open>
  C2, as stated, fails for an endpoint whose \<^verbatim>\<open>on_receive\<close> raises: both payloads decode, yet
  \<^verbatim>\<open>on_receive\<close> is invoked once, the second message and the disconnect message are never read,
  and \<^verbatim>\<open>on_disconnect\<close> gets \<^verbatim>\<open>None\<close>.
\<close>

theorem receive_receive_disconnect_counterexample:
  "decode recording_env raising_receive_endpoint (receive_text ''A'') ([], [])
     = (Inr (VStr ''A''), ([], []))
   \<and> decode recording_env raising_receive_endpoint (receive_text ''B'') ([], [])
     = (Inr (VStr ''B''), ([], []))
   \<and> ws_call recording_env raising_receive_endpoint
       [Msg (receive_text ''A''), Msg (receive_text ''B''), Msg (disconnect_with 1001)] []
     = (Raised (Fault ''handler failed''),
        [Msg (receive_text ''B''), Msg (disconnect_with 1001)],
        ([OnConnect (VDict []), OnReceive (VStr ''A''), OnDisconnect VNone],
         [VStr ''accepted'', VStr ''A'', VStr ''disconnected'', VNone]))"
  by (simp add: ws_call_def session_def decode_def dict_get_def recording_defs)

text \<open>
  C2, amended. Over the channel \<^verbatim>\<open>[receive(A), receive(B), disconnect(code=1001)]\<close>, with an
  encoding that decodes \<open>A\<close> to \<open>a\<close> and \<open>B\<close> to \<open>b\<close>, and with \<^verbatim>\<open>on_connect\<close> and both
  \<^verbatim>\<open>on_receive\<close> calls returning normally, the call consumes the whole channel and makes the
  calls \<^verbatim>\<open>on_connect\<close>, \<^verbatim>\<open>on_receive(a)\<close>, \<^verbatim>\<open>on_receive(b)\<close>, \<^verbatim>\<open>on_disconnect(1001)\<close> in that order,
  each on the state the one before left; it returns, unless \<^verbatim>\<open>on_disconnect\<close> raises.
\<close>

theorem receive_receive_disconnect:
  assumes "A ''type'' = Some (VStr ''websocket.receive'')"
    and "B ''type'' = Some (VStr ''websocket.receive'')"
    and "D ''type'' = Some (VStr ''websocket.disconnect'')"
    and "D ''code'' = Some (VInt 1001)"
    and "\<forall>s. decode env self A s = (Inr a, s)"
    and "\<forall>s. decode env self B s = (Inr b, s)"
    and "on_connect (cls self) (dict_get (scope self) ''kwargs'' (VDict [])) u = (None, u1)"
    and "on_receive (cls self) a u1 = (None, u2)"
    and "on_receive (cls self) b u2 = (None, u3)"
  shows "ws_call env self [Msg A, Msg B, Msg D] u =
           (case on_disconnect (cls self) (VInt 1001) u3 of
              (o1, u4) \<Rightarrow>
                ((case o1 of None \<Rightarrow> Returned | Some e \<Rightarrow> Raised e), [],
                 ([OnConnect (dict_get (scope self) ''kwargs'' (VDict [])),
                   OnReceive a, OnReceive b, OnDisconnect (VInt 1001)], u4)))"
proof -
  let ?kw = "dict_get (scope self) ''kwargs'' (VDict [])"
  have loop: "open_loop env self [Msg A, Msg B, Msg D] VNone ([OnConnect ?kw], u1) =
          (Returned, VInt 1001, [], ([OnConnect ?kw, OnReceive a, OnReceive b], u3))"
    using assms(1-6,8,9) by (simp add: dict_get_def)
  from session_leaves[OF loop] show ?thesis
    by (simp add: ws_call_entered[OF assms(7)])
qed

text \<open>
  The scenario on the recording subclass with \<^verbatim>\<open>encoding = "text"\<close>.
\<close>

theorem receive_receive_disconnect_witness:
  "ws_call recording_env (recording_endpoint (VStr ''text''))
      [Msg (receive_text ''A''), Msg (receive_text ''B''), Msg (disconnect_with 1001)] []
     = (Returned, [],
        ([OnConnect (VDict []), OnReceive (VStr ''A''), OnReceive (VStr ''B''),
          OnDisconnect (VInt 1001)],
         [VStr ''accepted'', VStr ''A'', VStr ''B'', VStr ''disconnected'', VInt 1001]))"
proof -
  let ?ep = "recording_endpoint (VStr ''text'')"
  have t: "receive_text ''A'' ''type'' = Some (VStr ''websocket.receive'')"
    "receive_text ''B'' ''type'' = Some (VStr ''websocket.receive'')"
    "disconnect_with 1001 ''type'' = Some (VStr ''websocket.disconnect'')"
    "disconnect_with 1001 ''code'' = Some (VInt 1001)"
    by (simp_all add: recording_defs)
  have d: "\<forall>s. decode recording_env ?ep (receive_text ''A'') s = (Inr (VStr ''A''), s)"
    "\<forall>s. decode recording_env ?ep (receive_text ''B'') s = (Inr (VStr ''B''), s)"
    by (simp_all add: decode_def recording_defs)
  have c: "on_connect (cls ?ep) (dict_get (scope ?ep) ''kwargs'' (VDict [])) []
             = (None, [VStr ''accepted''])"
    "on_receive (cls ?ep) (VStr ''A'') [VStr ''accepted''] = (None, [VStr ''accepted'', VStr ''A''])"
    "on_receive (cls ?ep) (VStr ''B'') [VStr ''accepted'', VStr ''A'']
       = (None, [VStr ''accepted'', VStr ''A'', VStr ''B''])"
    by (simp_all add: recording_defs)
  have k: "dict_get (scope ?ep) ''kwargs'' (VDict []) = VDict []"
    by (rule recording_kwargs)
  have od: "on_disconnect (cls ?ep) (VInt 1001) [VStr ''accepted'', VStr ''A'', VStr ''B'']
       = (None, [VStr ''accepted'', VStr ''A'', VStr ''B'', VStr ''disconnected'', VInt 1001])"
    by (simp add: recording_defs)
  from receive_receive_disconnect[OF t d c] show ?thesis
    by (simp add: k od)
qed




text \<open>
  C10. When \<^verbatim>\<open>on_connect\<close> raises, the call ends with that fault: the loop is not entered,
  nothing is read from the channel, and \<^verbatim>\<open>on_disconnect\<close> is not invoked.
\<close>

theorem on_connect_fault_skips_disconnect:
  assumes "on_connect (cls self) (dict_get (scope self) ''kwargs'' (VDict [])) u = (Some e, u')"
  shows "ws_call env self inbound u =
           (Raised e, inbound, ([OnConnect (dict_get (scope self) ''kwargs'' (VDict []))], u'))
         \<and> disconnect_codes (fst (snd (snd (ws_call env self inbound u)))) = []"
  using assms by (simp add: ws_call_def Let_def)

text \<open>A refusing endpoint on a channel that holds a disconnect message.\<close>

theorem on_connect_fault_skips_disconnect_witness:
  "ws_call quiet_env \<lparr>cls = refusing_class, scope = ws_scope\<rparr> [Msg disconnect_plain] ()
     = (Raised (Fault ''refused''), [Msg disconnect_plain], ([OnConnect (VDict [])], ()))
   \<and> disconnect_codes
       (fst (snd (snd (ws_call quiet_env \<lparr>cls = refusing_class, scope = ws_scope\<rparr>
          [Msg disconnect_plain] ())))) = []"
proof -
  let ?ep = "\<lparr>cls = refusing_class, scope = ws_scope\<rparr>"
  have kw: "dict_get (scope ?ep) ''kwargs'' (VDict []) = VDict []"
    by (simp add: dict_get_def ws_scope_def)
  have "on_connect (cls ?ep) (dict_get (scope ?ep) ''kwargs'' (VDict [])) ()
          = (Some (Fault ''refused''), ())"
    by (simp add: refusing_class_def)
  from on_connect_fault_skips_disconnect[OF this, of quiet_env "[Msg disconnect_plain]"]
  show ?thesis unfolding kw .
qed

text \<open>
  C5, as stated, fails: constructing an endpoint whose class declares \<^verbatim>\<open>encoding = "xml"\<close>
  succeeds. \<^verbatim>\<open>__init__\<close> checks the scope's type and nothing else.
\<close>

theorem unsupported_encoding_counterexample:
  "encoding (base_class quiet_env (VStr ''xml'')) \<notin> {VNone, VStr ''text'', VStr ''bytes'', VStr ''json''}
   \<and> ws_init (base_class quiet_env (VStr ''xml'')) ws_scope
       = Inr \<lparr>cls = base_class quiet_env (VStr ''xml''), scope = ws_scope\<rparr>"
  by (simp add: ws_init_def ws_scope_def base_class_def)

text \<open>
  C5, amended. Construction does not look at the encoding: on a websocket scope it succeeds.
  An encoding outside \<^verbatim>\<open>None\<close>, \<^verbatim>\<open>"text"\<close>, \<^verbatim>\<open>"bytes"\<close>, \<^verbatim>\<open>"json"\<close> fails the assertion at the
  end of \<^verbatim>\<open>decode\<close>: every receive-message raises \<^verbatim>\<open>AssertionError\<close> there, the session is not
  closed by \<^verbatim>\<open>decode\<close>, and the loop is left with that fault.
\<close>

theorem unsupported_encoding_raised_by_decode:
  assumes "encoding c \<notin> {VNone, VStr ''text'', VStr ''bytes'', VStr ''json''}"
    and "sc ''type'' = Some (VStr ''websocket'')"
    and "message ''type'' = Some (VStr ''websocket.receive'')"
  shows "ws_init c sc = Inr \<lparr>cls = c, scope = sc\<rparr>
         \<and> decode env \<lparr>cls = c, scope = sc\<rparr> message s = (Inl AssertionError, s)
         \<and> open_loop env \<lparr>cls = c, scope = sc\<rparr> (Msg message # ms) VNone s
             = (Raised AssertionError, VNone, ms, s)"
  using assms by (simp add: ws_init_def decode_def)

text \<open>The \<^verbatim>\<open>"xml"\<close> endpoint, constructed and then given a text message.\<close>

theorem unsupported_encoding_raised_by_decode_witness:
  "ws_init (base_class quiet_env (VStr ''xml'')) ws_scope
       = Inr \<lparr>cls = base_class quiet_env (VStr ''xml''), scope = ws_scope\<rparr>
   \<and> decode quiet_env \<lparr>cls = base_class quiet_env (VStr ''xml''), scope = ws_scope\<rparr>
        (receive_text ''hi'') ([OnConnect (VDict [])], ())
       = (Inl AssertionError, ([OnConnect (VDict [])], ()))
   \<and> open_loop quiet_env \<lparr>cls = base_class quiet_env (VStr ''xml''), scope = ws_scope\<rparr>
        (Msg (receive_text ''hi'') # [Msg disconnect_plain]) VNone ([OnConnect (VDict [])], ())
       = (Raised AssertionError, VNone, [Msg disconnect_plain], ([OnConnect (VDict [])], ()))"
proof -
  have e: "encoding (base_class quiet_env (VStr ''xml'')) \<notin>
             {VNone, VStr ''text'', VStr ''bytes'', VStr ''json''}"
    by (simp add: base_class_def)
  have t: "ws_scope ''type'' = Some (VStr ''websocket'')" by (simp add: ws_scope_def)
  have m: "receive_text ''hi'' ''type'' = Some (VStr ''websocket.receive'')"
    by (simp add: receive_text_def)
  show ?thesis
    by (rule unsupported_encoding_raised_by_decode
          [where c = "base_class quiet_env (VStr ''xml'')" and sc = ws_scope
             and message = "receive_text ''hi''", OF e t m])
qed

section \<open>Properties of the request endpoint\<close>

lemma lower_examples:
  "lower ''POST'' = ''post''" "lower ''GET'' = ''get''" "lower ''Delete'' = ''delete''"
  by code_simp+

text \<open>
  C4. \<^verbatim>\<open>dispatch\<close> looks up the attribute named \<^verbatim>\<open>get\<close> for \<^verbatim>\<open>HEAD\<close> and the lower-cased method
  name otherwise. When the instance has that attribute, the one call made is to it, with the
  request and the path parameters, and the result of a callable attribute is what
  \<^verbatim>\<open>dispatch\<close> yields; when it has not, the one call made is to \<^verbatim>\<open>method_not_allowed\<close>, with the
  same arguments.
\<close>

theorem dispatch_by_method_name:
  "handler_name request = (if req_method request = ''HEAD'' then ''get'' else lower (req_method request))
   \<and> (attrs self (handler_name request) \<noteq> None \<longrightarrow>
        snd (dispatch self request kwargs) = [CallHandler (handler_name request) request kwargs])
   \<and> (\<forall>f. attrs self (handler_name request) = Some (Coroutine f)
          \<or> attrs self (handler_name request) = Some (Callable f) \<longrightarrow>
        fst (dispatch self request kwargs) = f request kwargs)
   \<and> (attrs self (handler_name request) = None \<longrightarrow>
        dispatch self request kwargs =
          (method_not_allowed self request kwargs, [CallMethodNotAllowed request kwargs]))"
  by (auto simp: dispatch_def handler_name_def split: option.splits attr.splits)

text \<open>An endpoint that defines \<^verbatim>\<open>get\<close>: a \<^verbatim>\<open>HEAD\<close> request reaches it, a \<^verbatim>\<open>POST\<close> request does not.\<close>

theorem dispatch_by_method_name_witness:
  "handler_name (request_with ''HEAD'') = ''get''
   \<and> snd (dispatch standalone_endpoint (request_with ''HEAD'') (VDict []))
        = [CallHandler ''get'' (request_with ''HEAD'') (VDict [])]
   \<and> fst (dispatch standalone_endpoint (request_with ''HEAD'') (VDict []))
        = Inr (HandlerResponse ())
   \<and> handler_name (request_with ''POST'') = ''post''
   \<and> dispatch standalone_endpoint (request_with ''POST'') (VDict [])
        = (method_not_allowed standalone_endpoint (request_with ''POST'') (VDict []),
           [CallMethodNotAllowed (request_with ''POST'') (VDict [])])"
proof -
  have h: "handler_name (request_with ''HEAD'') = ''get''"
    "handler_name (request_with ''POST'') = ''post''"
    by (simp_all add: handler_name_def request_with_def lower_examples)
  have a: "attrs standalone_endpoint ''get''
             = Some (Coroutine (\<lambda>request kwargs. Inr (HandlerResponse ())))"
    "attrs standalone_endpoint ''post'' = None"
    by (simp_all add: standalone_endpoint_def get_only_def)
  from dispatch_by_method_name[of "request_with ''HEAD''" standalone_endpoint "VDict []"]
    dispatch_by_method_name[of "request_with ''POST''" standalone_endpoint "VDict []"]
  show ?thesis
    unfolding h using a by simp
qed

text \<open>
  C6. When \<^verbatim>\<open>dispatch\<close> finds no handler: with an \<^verbatim>\<open>app\<close> entry in the scope it raises
  \<^verbatim>\<open>HTTPException(status_code=405)\<close> and yields no response; without one it yields the plain-text
  response \<^verbatim>\<open>Method Not Allowed\<close> with status 405.
\<close>

theorem method_not_allowed_405:
  assumes "attrs self (handler_name request) = None"
  shows "(http_scope self ''app'' \<noteq> None \<longrightarrow>
            fst (dispatch self request kwargs) = Inl (HTTPException 405))
       \<and> (http_scope self ''app'' = None \<longrightarrow>
            fst (dispatch self request kwargs) = Inr (PlainTextResponse ''Method Not Allowed'' 405))
       \<and> snd (dispatch self request kwargs) = [CallMethodNotAllowed request kwargs]"
  using assms by (simp add: dispatch_def method_not_allowed_def)

text \<open>A \<^verbatim>\<open>POST\<close> request to the \<^verbatim>\<open>get\<close>-only endpoint, under the facade and standalone.\<close>

theorem method_not_allowed_405_witness:
  "fst (dispatch managed_endpoint (request_with ''POST'') (VDict [])) = Inl (HTTPException 405)
   \<and> fst (dispatch standalone_endpoint (request_with ''POST'') (VDict []))
        = Inr (PlainTextResponse ''Method Not Allowed'' 405)"
proof -
  have h: "handler_name (request_with ''POST'') = ''post''"
    by (simp add: handler_name_def request_with_def lower_examples)
  have a: "attrs managed_endpoint (handler_name (request_with ''POST'')) = None"
    "attrs standalone_endpoint (handler_name (request_with ''POST'')) = None"
    unfolding h by (simp_all add: managed_endpoint_def standalone_endpoint_def get_only_def)
  have s: "http_scope managed_endpoint ''app'' \<noteq> None"
    "http_scope standalone_endpoint ''app'' = None"
    by (simp_all add: managed_endpoint_def standalone_endpoint_def plain_http_scope_def)
  from method_not_allowed_405[OF a(1), of "VDict []"]
    method_not_allowed_405[OF a(2), of "VDict []"] s
  show ?thesis by simp
qed

section \<open>Properties of the facade\<close>

text \<open>\<^verbatim>\<open>add_middleware\<close> never assigns \<^verbatim>\<open>self.app\<close>: it stays the router.\<close>

lemma app_add_middlewares: "app (add_middlewares self regs) = app self"
  unfolding add_middlewares_def
  by (induction regs arbitrary: self) (auto simp: add_middleware_def)

lemma add_middlewares_snoc:
  "add_middlewares self (regs @ [(m, k)]) = add_middleware (add_middlewares self regs) m k"
  by (simp add: add_middlewares_def)

text \<open>
  C7. \<^verbatim>\<open>add_middleware\<close> wraps \<^verbatim>\<open>self.app\<close>, which is the router for the facade's whole life, and
  not the chain built so far. After any registrations the exception wrapper's target is the
  last middleware around the router alone; after \<^verbatim>\<open>M1\<close> then \<^verbatim>\<open>M2\<close> it is \<^verbatim>\<open>M2(router)\<close>, where
  the chain of the claim is \<^verbatim>\<open>M2(M1(router))\<close>.
\<close>

theorem add_middleware_keeps_only_last:
  "exception_middleware_app (add_middlewares (starlette_init debug) (regs @ [(m, k)]))
     = Middleware m k Router
   \<and> exception_middleware_app
       (add_middleware (add_middleware (starlette_init debug) ''M1'' (VDict [])) ''M2'' (VDict []))
     = Middleware ''M2'' (VDict []) Router
   \<and> stacked [(''M1'', VDict []), (''M2'', VDict [])]
     = Middleware ''M2'' (VDict []) (Middleware ''M1'' (VDict []) Router)"
proof -
  have "app (add_middlewares (starlette_init debug) regs) = Router"
    by (simp add: app_add_middlewares starlette_init_def)
  then show ?thesis
    by (simp add: add_middlewares_snoc add_middleware_def starlette_init_def stacked_def)
qed

text \<open>
  C8, as stated, fails: \<^verbatim>\<open>Starlette.__call__\<close> on an \<^verbatim>\<open>http\<close> scope leaves the caller's
  dictionary with an \<^verbatim>\<open>app\<close> entry it did not have.
\<close>

theorem scope_read_only_counterexample:
  "snd (starlette_call ''app1'' (starlette_init False) plain_http_scope) \<noteq> plain_http_scope"
proof
  assume "snd (starlette_call ''app1'' (starlette_init False) plain_http_scope) = plain_http_scope"
  then have "snd (starlette_call ''app1'' (starlette_init False) plain_http_scope) ''app''
               = plain_http_scope ''app''"
    by simp
  then show False
    by (simp add: starlette_call_def plain_http_scope_def)
qed

text \<open>
  C8, amended. The one write to the scope is the facade's: on a connection that is not a
  lifecycle connection it sets \<^verbatim>\<open>scope["app"]\<close> to a reference to itself, hands that same
  dictionary to the exception wrapper, and leaves every other entry as it was; a lifecycle
  scope is handed on untouched. Nothing else in the core writes to it: the endpoint
  constructors keep the scope they are given, and when a connection completes through the
  request adapter, the session adapter, the request endpoint or the session endpoint, the
  dictionary is as it was given.
\<close>

theorem core_writes_only_app:
  "snd (starlette_call this self sc) =
     (if sc ''type'' = None \<or> sc ''type'' = Some (VStr ''lifespan'') then sc
      else sc(''app'' \<mapsto> VObj this))
   \<and> (\<forall>k. k \<noteq> ''app'' \<longrightarrow> snd (starlette_call this self sc) k = sc k)
   \<and> (\<forall>a dbg sc'. fst (starlette_call this self sc) = Inr (ToExceptionMiddleware a dbg sc') \<longrightarrow>
         sc' = snd (starlette_call this self sc) \<and> sc' ''app'' = Some (VObj this))
   \<and> (\<forall>sc'. fst (starlette_call this self sc) = Inr (ToLifespan sc') \<longrightarrow>
         sc' = sc \<and> snd (starlette_call this self sc) = sc)
   \<and> (\<forall>ep. ws_init c sc = Inr ep \<longrightarrow> scope ep = sc)
   \<and> (\<forall>ep. http_init members sc = Inr ep \<longrightarrow> http_scope ep = sc)
   \<and> snd (request_response_app func mk_request sc) = sc
   \<and> snd (websocket_session_app session_func sc u) = sc
   \<and> snd (http_endpoint_app members mk_request sc) = sc
   \<and> snd (ws_endpoint_app env c sc inbound u) = sc"
proof -
  have f: "snd (starlette_call this self sc) =
     (if sc ''type'' = None \<or> sc ''type'' = Some (VStr ''lifespan'') then sc
      else sc(''app'' \<mapsto> VObj this))"
    by (auto simp: starlette_call_def split: option.splits)
  have d: "\<forall>a dbg sc'. fst (starlette_call this self sc) = Inr (ToExceptionMiddleware a dbg sc') \<longrightarrow>
         sc' = snd (starlette_call this self sc) \<and> sc' ''app'' = Some (VObj this)"
    by (auto simp: starlette_call_def split: option.splits if_splits)
  have l: "\<forall>sc'. fst (starlette_call this self sc) = Inr (ToLifespan sc') \<longrightarrow>
         sc' = sc \<and> snd (starlette_call this self sc) = sc"
    by (auto simp: starlette_call_def split: option.splits if_splits)
  have i: "\<forall>ep. ws_init c sc = Inr ep \<longrightarrow> scope ep = sc"
    "\<forall>ep. http_init members sc = Inr ep \<longrightarrow> http_scope ep = sc"
    by (auto simp: ws_init_def http_init_def split: option.splits if_splits)
  have a: "snd (request_response_app func mk_request sc) = sc"
    by (cases func) (simp_all add: request_response_app_def Let_def)
  have b: "snd (websocket_session_app session_func sc u) = sc"
    by (simp add: websocket_session_app_def Let_def)
  have h: "snd (http_endpoint_app members mk_request sc) = sc"
    using i(2) by (cases "http_init members sc") (simp_all add: http_endpoint_app_def Let_def)
  have w: "snd (ws_endpoint_app env c sc inbound u) = sc"
    using i(1) by (cases "ws_init c sc") (simp_all add: ws_endpoint_app_def)
  from f d l i a b h w show ?thesis by simp
qed

text \<open>
  An \<^verbatim>\<open>http\<close> scope through two facades, the stamped scope through a request endpoint,
  and a websocket scope through a session endpoint.
\<close>

theorem core_writes_only_app_witness:
  "starlette_call ''app1'' (starlette_init False) plain_http_scope
     = (Inr (ToExceptionMiddleware Router False (plain_http_scope(''app'' \<mapsto> VObj ''app1''))),
        plain_http_scope(''app'' \<mapsto> VObj ''app1''))
   \<and> snd (starlette_call ''app1'' (starlette_init False) plain_http_scope) ''type''
       = Some (VStr ''http'')
   \<and> snd (starlette_call ''app2'' (starlette_init False) plain_http_scope) ''app''
       = Some (VObj ''app2'')
   \<and> http_endpoint_app get_only (\<lambda>sc. request_with ''POST'')
        (plain_http_scope(''app'' \<mapsto> VObj ''app1''))
     = ((Inl (HTTPException 405), [CallMethodNotAllowed (request_with ''POST'') (VDict [])]),
        plain_http_scope(''app'' \<mapsto> VObj ''app1''))
   \<and> ws_endpoint_app recording_env (recording_class (VStr ''text'')) ws_scope
        [Msg (receive_text ''hi''), Msg disconnect_plain] []
     = ((Returned, [],
         ([OnConnect (VDict []), OnReceive (VStr ''hi''), OnDisconnect (VInt 1000)],
          [VStr ''accepted'', VStr ''hi'', VStr ''disconnected'', VInt 1000])),
        ws_scope)"
proof -
  have t: "plain_http_scope ''type'' = Some (VStr ''http'')"
    by (simp add: plain_http_scope_def)
  note at_scope = core_writes_only_app
    [where self = "starlette_init False" and c = "recording_class (VStr ''text'')"
       and members = get_only and func = "Callable (\<lambda>r k. Inr (HandlerResponse ()))"
       and mk_request = "\<lambda>sc. request_with ''POST''" and session_func = "\<lambda>k w. (None, w)"
       and u = "[]" and env = recording_env
       and inbound = "[Msg (receive_text ''hi''), Msg disconnect_plain]"]
  note fac1 = at_scope[where this = "''app1''" and sc = plain_http_scope, THEN conjunct1]
  note fac2 = at_scope[where this = "''app2''" and sc = plain_http_scope, THEN conjunct1]
  have call: "fst (starlette_call ''app1'' (starlette_init False) plain_http_scope)
      = Inr (ToExceptionMiddleware Router False (plain_http_scope(''app'' \<mapsto> VObj ''app1'')))"
    by (simp add: starlette_call_def starlette_init_def plain_http_scope_def)
  have s1: "snd (starlette_call ''app1'' (starlette_init False) plain_http_scope)
       = plain_http_scope(''app'' \<mapsto> VObj ''app1'')"
    using fac1 t by simp
  have s2: "snd (starlette_call ''app2'' (starlette_init False) plain_http_scope)
       = plain_http_scope(''app'' \<mapsto> VObj ''app2'')"
    using fac2 t by simp
  have s3: "snd (starlette_call ''app2'' (starlette_init False) plain_http_scope) ''app''
       = Some (VObj ''app2'')"
    by (simp add: s2)
  have s4: "snd (starlette_call ''app1'' (starlette_init False) plain_http_scope) ''type''
       = Some (VStr ''http'')"
    by (simp add: s1 t)
  have h: "fst (http_endpoint_app get_only (\<lambda>sc. request_with ''POST'')
        (plain_http_scope(''app'' \<mapsto> VObj ''app1'')))
     = (Inl (HTTPException 405), [CallMethodNotAllowed (request_with ''POST'') (VDict [])])"
    by (simp add: http_endpoint_app_def http_init_def dispatch_def method_not_allowed_def
        handler_name_def request_with_def lower_examples get_only_def plain_http_scope_def
        dict_get_def)
  have h2: "snd (http_endpoint_app get_only (\<lambda>sc. request_with ''POST'')
        (plain_http_scope(''app'' \<mapsto> VObj ''app1''))) = plain_http_scope(''app'' \<mapsto> VObj ''app1'')"
    using at_scope[where this = "''app1''" and sc = "plain_http_scope(''app'' \<mapsto> VObj ''app1'')"]
    by (elim conjE)
  have w: "fst (ws_endpoint_app recording_env (recording_class (VStr ''text'')) ws_scope
        [Msg (receive_text ''hi''), Msg disconnect_plain] [])
     = (Returned, [],
         ([OnConnect (VDict []), OnReceive (VStr ''hi''), OnDisconnect (VInt 1000)],
          [VStr ''accepted'', VStr ''hi'', VStr ''disconnected'', VInt 1000]))"
    by (simp add: ws_endpoint_app_def ws_init_def ws_call_def session_def decode_def dict_get_def
        recording_defs)
  have w2: "snd (ws_endpoint_app recording_env (recording_class (VStr ''text'')) ws_scope
        [Msg (receive_text ''hi''), Msg disconnect_plain] []) = ws_scope"
    using at_scope[where this = "''app1''" and sc = ws_scope]
    by (elim conjE)
  have c1: "starlette_call ''app1'' (starlette_init False) plain_http_scope
     = (Inr (ToExceptionMiddleware Router False (plain_http_scope(''app'' \<mapsto> VObj ''app1''))),
        plain_http_scope(''app'' \<mapsto> VObj ''app1''))"
    by (rule prod_eqI) (simp_all only: fst_conv snd_conv call s1)
  have c4: "http_endpoint_app get_only (\<lambda>sc. request_with ''POST'')
        (plain_http_scope(''app'' \<mapsto> VObj ''app1''))
     = ((Inl (HTTPException 405), [CallMethodNotAllowed (request_with ''POST'') (VDict [])]),
        plain_http_scope(''app'' \<mapsto> VObj ''app1''))"
    by (rule prod_eqI) (simp_all only: fst_conv snd_conv h h2)
  have c5: "ws_endpoint_app recording_env (recording_class (VStr ''text'')) ws_scope
        [Msg (receive_text ''hi''), Msg disconnect_plain] []
     = ((Returned, [],
         ([OnConnect (VDict []), OnReceive (VStr ''hi''), OnDisconnect (VInt 1000)],
          [VStr ''accepted'', VStr ''hi'', VStr ''disconnected'', VInt 1000])),
        ws_scope)"
    by (rule prod_eqI) (simp_all only: fst_conv snd_conv w w2)
  show ?thesis
    by (intro conjI c1 s4 s3 c4 c5)
qed

text \<open>
  C9. \<^verbatim>\<open>add_route\<close> with a routine and no method set appends a route whose endpoint is the
  routine wrapped by \<^verbatim>\<open>request_response\<close> and whose methods are \<^verbatim>\<open>["GET"]\<close>, so that route sends
  a \<^verbatim>\<open>POST\<close> request to method-not-allowed and a \<^verbatim>\<open>GET\<close> request to the wrapped routine. With
  a class it appends a route holding the class as given, with the methods as given.
\<close>

theorem add_route_defaults:
  "(\<not> isclass r \<longrightarrow>
      routes (add_route self p r None) = routes self @
        [\<lparr>path = p, endpoint = request_response r, protocol = ''http'',
          methods = Some [''GET'']\<rparr>]
      \<and> path_call (last (routes (add_route self p r None))) ''POST'' = MethodNotAllowed
      \<and> path_call (last (routes (add_route self p r None))) ''GET''
           = ToEndpoint (request_response r))
   \<and> (isclass r \<longrightarrow>
      routes (add_route self p r ms) = routes self @
        [\<lparr>path = p, endpoint = AsGiven r, protocol = ''http'', methods = ms\<rparr>])"
  by (simp add: add_route_def path_call_def)

text \<open>Registering a routine and a class on a fresh facade.\<close>

theorem add_route_defaults_witness:
  "routes (add_route (starlette_init False) ''/'' (RoutineObj ''homepage'') None)
     = [\<lparr>path = ''/'', endpoint = RequestResponse (RoutineObj ''homepage''),
         protocol = ''http'', methods = Some [''GET'']\<rparr>]
   \<and> path_call (last (routes (add_route (starlette_init False) ''/''
        (RoutineObj ''homepage'') None))) ''POST'' = MethodNotAllowed
   \<and> routes (add_route (starlette_init False) ''/'' (ClassObj ''Homepage'') None)
     = [\<lparr>path = ''/'', endpoint = AsGiven (ClassObj ''Homepage''),
         protocol = ''http'', methods = None\<rparr>]"
  using add_route_defaults[of "RoutineObj ''homepage''" "starlette_init False" "''/''" None]
    add_route_defaults[of "ClassObj ''Homepage''" "starlette_init False" "''/''" None]
  by (simp add: starlette_init_def request_response_def add_route_def path_call_def)

end
